theory Spec2Isabelle
  imports Main
begin

section \<open>Strings\<close>

text \<open>
  A JavaScript string is the list of its UTF-16 code units, each a natural number;
  \<open>js\<close> embeds a literal of ASCII characters.
\<close>

type_synonym jsstring = "nat list"

definition js :: "string \<Rightarrow> jsstring" where
  "js s = map of_char s"

text \<open>
  The decimal digits of a number, as \<^verbatim>\<open>String(n)\<close> gives them: the name of the property
  read by \<^verbatim>\<open>x[n]\<close>. \<open>index_of\<close> tells whether a property name is such a numeral, and
  which.
\<close>

fun decimal :: "nat \<Rightarrow> jsstring" where
  "decimal n = (if n < 10 then [48 + n] else decimal (n div 10) @ [48 + n mod 10])"

declare decimal.simps [simp del]

definition value_of :: "jsstring \<Rightarrow> nat" where
  "value_of p = foldl (\<lambda>a c. 10 * a + (c - 48)) 0 p"

definition index_of :: "jsstring \<Rightarrow> nat option" where
  "index_of p = (if decimal (value_of p) = p then Some (value_of p) else None)"

section \<open>Data model\<close>

text \<open>
  Modelled from the spec: \<^verbatim>\<open>typeDefs.ts\<close> (the types \<^verbatim>\<open>Message\<close>,
  \<^verbatim>\<open>MessageContext\<close>, \<^verbatim>\<open>LanguageData\<close> and \<^verbatim>\<open>Language\<close> imported by
  \<^verbatim>\<open>translate.ts\<close>) is not among the sources. Section 3 of the specification gives
  the three shapes of a table entry: a plain string, a list of plural forms, and a map
  from a context name (the empty string for "no context") to a plain string or a list of
  plural forms. A table maps message keys to entries, the dictionary maps language keys
  to tables. These maps hold the properties stored in the objects; what an object
  inherits is in the section on values.
\<close>

datatype message = Str jsstring | Arr "jsstring list"

datatype entry = Msg message | Ctx "jsstring \<Rightarrow> message option"

type_synonym LanguageData = "jsstring \<Rightarrow> entry option"

type_synonym Translations = "jsstring \<Rightarrow> LanguageData option"

type_synonym parameters = "jsstring \<Rightarrow> jsstring option"

text \<open>
  The \<^verbatim>\<open>language\<close> object the resolver is built over; its field
  \<^verbatim>\<open>translations\<close> is \<open>translations_of\<close> here. Its \<^verbatim>\<open>interpolate\<close>
  method (\<^verbatim>\<open>interpolate.ts\<close>) is not among the sources and stays an arbitrary
  function of the message, the parameters and the escaping flag.
\<close>

record Language =
  current :: jsstring
  translations_of :: Translations
  muted :: "jsstring list"
  silent :: bool
  interpolate :: "jsstring \<Rightarrow> parameters \<Rightarrow> bool \<Rightarrow> jsstring"

text \<open>
  The ways a call ends without a string.
  \<^item> \<open>Error\<close> is the error of line 96. The source joins four values with single spaces
    into its message; the model keeps them apart: the trimmed message key, the plural
    index, \<^verbatim>\<open>language.current\<close> and the count \<^verbatim>\<open>n\<close>.
  \<^item> \<open>TypeError\<close> is the error JavaScript throws for a property read on
    \<^verbatim>\<open>undefined\<close> or \<^verbatim>\<open>null\<close> and for a call of a value that is not a function.
  \<^item> \<open>NonString\<close> is no exception: the value found at the plural index is truthy
    and not a string, and line 98 returns it as it is, or hands it to
    \<^verbatim>\<open>interpolate\<close>, where a string is declared.

  A count is a JavaScript number or \<^verbatim>\<open>null\<close>; the resolver only compares it with
  \<^verbatim>\<open>1\<close> and hands it to the plural rule, so it is modelled as an optional integer.
\<close>

datatype error = Error jsstring nat jsstring "int option" | TypeError | NonString

section \<open>Values at run time\<close>

text \<open>
  What a variable of \<^verbatim>\<open>getTranslation\<close> holds at run time: a primitive value, a
  stored list of plural forms, a stored context map, a stored table, or any other
  object or function (\<open>VHost\<close>), which is what a read finds when the name is not
  stored but inherited.
\<close>

datatype 'h jsval =
    VUndefined
  | VNull
  | VBool bool
  | VNum nat
  | VStr jsstring
  | VArr "jsstring list"
  | VObj "jsstring \<Rightarrow> message option"
  | VTab LanguageData
  | VHost 'h

text \<open>
  The built-in objects of the JavaScript runtime are not part of the repository; they
  are the parameter \<open>H\<close> of every definition below:
  \<^item> \<open>inherited H pr p\<close> is the result of reading the name \<open>p\<close> through the
    prototype \<open>pr\<close> (the member found there, \<^verbatim>\<open>undefined\<close> when there is none, or the
    error a getter throws);
  \<^item> \<open>host_get H h p\<close> is the result of reading the name \<open>p\<close> on the object \<open>h\<close>;
  \<^item> \<open>host_is_array H h\<close> is \<^verbatim>\<open>h instanceof Array\<close>;
  \<^item> \<open>host_has_own H h\<close> is the result of the call \<^verbatim>\<open>h.hasOwnProperty("")\<close>.
\<close>

datatype proto = ObjectProto | StringProto | ArrayProto | NumberProto | BooleanProto

record 'h host =
  inherited :: "proto \<Rightarrow> jsstring \<Rightarrow> error + 'h jsval"
  host_get :: "'h \<Rightarrow> jsstring \<Rightarrow> error + 'h jsval"
  host_is_array :: "'h \<Rightarrow> bool"
  host_has_own :: "'h \<Rightarrow> error + bool"

definition val_of_message :: "message \<Rightarrow> 'h jsval" where
  "val_of_message f = (case f of Str s \<Rightarrow> VStr s | Arr xs \<Rightarrow> VArr xs)"

definition val_of_entry :: "entry \<Rightarrow> 'h jsval" where
  "val_of_entry e = (case e of Msg f \<Rightarrow> val_of_message f | Ctx m \<Rightarrow> VObj m)"

text \<open>Truthiness.\<close>

definition truthy :: "jsstring option \<Rightarrow> bool" where
  "truthy s = (case s of None \<Rightarrow> False | Some v \<Rightarrow> v \<noteq> [])"

fun truthy_val :: "'h jsval \<Rightarrow> bool" where
  "truthy_val VUndefined = False"
| "truthy_val VNull = False"
| "truthy_val (VBool b) = b"
| "truthy_val (VNum k) = (k \<noteq> 0)"
| "truthy_val (VStr s) = (s \<noteq> [])"
| "truthy_val (VArr xs) = True"
| "truthy_val (VObj m) = True"
| "truthy_val (VTab t) = True"
| "truthy_val (VHost h) = True"

text \<open>
  A name that is not stored is read through the prototype. No built-in prototype has a
  member named by an array index, so such a name finds nothing there.
\<close>

definition inherit :: "'h host \<Rightarrow> proto \<Rightarrow> jsstring \<Rightarrow> error + 'h jsval" where
  "inherit H pr p = (case index_of p of Some i \<Rightarrow> Inr VUndefined | None \<Rightarrow> inherited H pr p)"

text \<open>
  The property read \<^verbatim>\<open>x[p]\<close>. A string and an array have their elements and their
  \<^verbatim>\<open>length\<close>, and nothing at an index past their elements; an object of the
  dictionary has what is stored in it; every other name is inherited. A read on
  \<^verbatim>\<open>undefined\<close> or \<^verbatim>\<open>null\<close> throws.
\<close>

fun get_property :: "'h host \<Rightarrow> 'h jsval \<Rightarrow> jsstring \<Rightarrow> error + 'h jsval" where
  "get_property H VUndefined p = Inl TypeError"
| "get_property H VNull p = Inl TypeError"
| "get_property H (VBool b) p = inherit H BooleanProto p"
| "get_property H (VNum k) p = inherit H NumberProto p"
| "get_property H (VStr s) p =
     (case index_of p of
        Some i \<Rightarrow> Inr (if i < length s then VStr [s ! i] else VUndefined)
      | None \<Rightarrow> if p = js ''length'' then Inr (VNum (length s)) else inherited H StringProto p)"
| "get_property H (VArr xs) p =
     (case index_of p of
        Some i \<Rightarrow> Inr (if i < length xs then VStr (xs ! i) else VUndefined)
      | None \<Rightarrow> if p = js ''length'' then Inr (VNum (length xs)) else inherited H ArrayProto p)"
| "get_property H (VObj m) p =
     (case m p of Some f \<Rightarrow> Inr (val_of_message f) | None \<Rightarrow> inherit H ObjectProto p)"
| "get_property H (VTab t) p =
     (case t p of Some e \<Rightarrow> Inr (val_of_entry e) | None \<Rightarrow> inherit H ObjectProto p)"
| "get_property H (VHost h) p = host_get H h p"

text \<open>\<^verbatim>\<open>x instanceof Array\<close>.\<close>

fun is_array :: "'h host \<Rightarrow> 'h jsval \<Rightarrow> bool" where
  "is_array H (VArr xs) = True"
| "is_array H (VHost h) = host_is_array H h"
| "is_array H v = False"

text \<open>
  The call \<^verbatim>\<open>x.hasOwnProperty("")\<close>. The method is the built-in one, inherited from
  \<^verbatim>\<open>Object.prototype\<close>, unless the object stores a property of that name: a stored
  value is a string or an array, and calling it throws.
\<close>

fun has_own_empty :: "'h host \<Rightarrow> 'h jsval \<Rightarrow> error + bool" where
  "has_own_empty H VUndefined = Inl TypeError"
| "has_own_empty H VNull = Inl TypeError"
| "has_own_empty H (VObj m) =
     (if m (js ''hasOwnProperty'') \<noteq> None then Inl TypeError else Inr (m [] \<noteq> None))"
| "has_own_empty H (VTab t) =
     (if t (js ''hasOwnProperty'') \<noteq> None then Inl TypeError else Inr (t [] \<noteq> None))"
| "has_own_empty H (VHost h) = host_has_own H h"
| "has_own_empty H v = Inr False"

section \<open>The operations of the source\<close>

text \<open>Lines 30-31: \<^verbatim>\<open>interp\<close>; a parameters object, when given, is truthy.\<close>

definition interp :: "Language \<Rightarrow> bool \<Rightarrow> jsstring \<Rightarrow> parameters option \<Rightarrow> jsstring" where
  "interp language disableHtmlEscaping message ps =
     (case ps of
        None \<Rightarrow> message
      | Some p \<Rightarrow> interpolate language message p disableHtmlEscaping)"

text \<open>Lines 26-28: the language key of the call, \<^verbatim>\<open>language.current\<close> by default.\<close>

definition language_key :: "Language \<Rightarrow> jsstring option \<Rightarrow> jsstring" where
  "language_key language languageKey =
     (case languageKey of None \<Rightarrow> current language | Some k \<Rightarrow> k)"

text \<open>Line 37: \<^verbatim>\<open>silent\<close>, guarded by the truthiness of the language key.\<close>

definition is_silent :: "Language \<Rightarrow> jsstring \<Rightarrow> bool" where
  "is_silent language languageKey =
     (if languageKey \<noteq> [] then silent language \<or> languageKey \<in> set (muted language)
      else False)"

text \<open>
  Line 40: \<^verbatim>\<open>untranslated\<close>. \<^verbatim>\<open>plurals.getTranslationIndex\<close> (\<^verbatim>\<open>plurals.ts\<close>) is
  not among the sources: it is the parameter \<open>plurals\<close> of every definition below.
\<close>

definition untranslated ::
  "(jsstring \<Rightarrow> int option \<Rightarrow> nat) \<Rightarrow> jsstring \<Rightarrow> int option \<Rightarrow> jsstring option \<Rightarrow> jsstring \<Rightarrow>
     jsstring" where
  "untranslated plurals msgid n defaultPlural languageKey =
     (case defaultPlural of
        None \<Rightarrow> msgid
      | Some d \<Rightarrow> if d \<noteq> [] \<and> 0 < plurals languageKey n then d else msgid)"

text \<open>
  \<^verbatim>\<open>languageKey.split("_")[0]\<close>: the part before the first underscore (code unit 95).
\<close>

definition family :: "jsstring \<Rightarrow> jsstring" where
  "family languageKey = takeWhile (\<lambda>c. c \<noteq> 95) languageKey"

text \<open>The read \<^verbatim>\<open>pluginTranslations[k]\<close> of the dictionary.\<close>

definition lookup_language :: "'h host \<Rightarrow> Translations \<Rightarrow> jsstring \<Rightarrow> error + 'h jsval" where
  "lookup_language H pluginTranslations k =
     (case pluginTranslations k of
        Some t \<Rightarrow> Inr (VTab t)
      | None \<Rightarrow> inherit H ObjectProto k)"

text \<open>Line 49: what the language key reads if it is truthy, or else what its family reads.\<close>

definition find_translations :: "'h host \<Rightarrow> Translations \<Rightarrow> jsstring \<Rightarrow> error + 'h jsval" where
  "find_translations H pluginTranslations languageKey =
     (case lookup_language H pluginTranslations languageKey of
        Inl e \<Rightarrow> Inl e
      | Inr v \<Rightarrow>
          if truthy_val v then Inr v
          else lookup_language H pluginTranslations (family languageKey))"

text \<open>
  Line 59: \<^verbatim>\<open>msgid.trim()\<close> removes the white space and the line terminators of
  ECMAScript at both ends: U+0009 to U+000D, U+0020, U+00A0, U+1680, U+2000 to U+200A,
  U+2028, U+2029, U+202F, U+205F, U+3000 and U+FEFF.
\<close>

definition is_space :: "nat \<Rightarrow> bool" where
  "is_space c =
     (c \<in> set [0x09, 0x0A, 0x0B, 0x0C, 0x0D, 0x20, 0xA0, 0x1680,
               0x2000, 0x2001, 0x2002, 0x2003, 0x2004, 0x2005, 0x2006, 0x2007, 0x2008,
               0x2009, 0x200A, 0x2028, 0x2029, 0x202F, 0x205F, 0x3000, 0xFEFF])"

definition trim :: "jsstring \<Rightarrow> jsstring" where
  "trim s = rev (dropWhile is_space (rev (dropWhile is_space s)))"

text \<open>
  Lines 61-65: the read of the key in the table, then of the context when one is asked
  for and the first read is truthy.
\<close>

definition lookup_translated ::
  "'h host \<Rightarrow> 'h jsval \<Rightarrow> jsstring \<Rightarrow> jsstring option \<Rightarrow> error + 'h jsval" where
  "lookup_translated H table msgid context =
     (case get_property H table msgid of
        Inl e \<Rightarrow> Inl e
      | Inr translated \<Rightarrow>
          (case context of
             None \<Rightarrow> Inr translated
           | Some c \<Rightarrow>
               if truthy_val translated \<and> c \<noteq> [] then get_property H translated c
               else Inr translated))"

text \<open>Lines 69-72: the text of the warning for a key without translation.\<close>

definition untranslated_warning :: "jsstring \<Rightarrow> jsstring \<Rightarrow> jsstring option \<Rightarrow> jsstring" where
  "untranslated_warning languageKey msgid context =
     js ''Untranslated '' @ languageKey @ js '' key found: '' @ msgid @
     (case context of
        None \<Rightarrow> []
      | Some c \<Rightarrow> if c \<noteq> [] then js '' (with context: '' @ c @ js '')'' else [])"

text \<open>
  Lines 79-82: a value that is not an array and has an own property named by the empty
  string is replaced by this property.
\<close>

definition unwrap_void :: "'h host \<Rightarrow> 'h jsval \<Rightarrow> error + 'h jsval" where
  "unwrap_void H translated =
     (if is_array H translated then Inr translated
      else case has_own_empty H translated of
             Inl e \<Rightarrow> Inl e
           | Inr own \<Rightarrow> if own then get_property H translated [] else Inr translated)"

text \<open>
  Lines 88-98: the plural index picks the form, index 0 being forced when the
  \<^verbatim>\<open>length\<close> of the value is 1 and \<open>n\<close> is 1; a falsy or missing form throws.
\<close>

definition plural_form ::
  "'h host \<Rightarrow> (jsstring \<Rightarrow> int option \<Rightarrow> nat) \<Rightarrow> Language \<Rightarrow> jsstring \<Rightarrow> int option \<Rightarrow>
     jsstring \<Rightarrow> parameters option \<Rightarrow> bool \<Rightarrow> 'h jsval \<Rightarrow> error + jsstring" where
  "plural_form H plurals language msgid n languageKey ps disableHtmlEscaping translated =
     (case get_property H translated (js ''length'') of
        Inl e \<Rightarrow> Inl e
      | Inr len \<Rightarrow>
          (let translationIndex =
                 (if len = VNum 1 \<and> n = Some 1 then 0 else plurals languageKey n)
           in case get_property H translated (decimal translationIndex) of
                Inl e \<Rightarrow> Inl e
              | Inr form \<Rightarrow>
                  if \<not> truthy_val form
                  then Inl (Error msgid translationIndex (current language) n)
                  else (case form of
                          VStr s \<Rightarrow> Inr (interp language disableHtmlEscaping s ps)
                        | _ \<Rightarrow> Inl NonString)))"

text \<open>Lines 84-98: a string is returned interpolated; any other value is a list of forms.\<close>

definition select_form ::
  "'h host \<Rightarrow> (jsstring \<Rightarrow> int option \<Rightarrow> nat) \<Rightarrow> Language \<Rightarrow> jsstring \<Rightarrow> int option \<Rightarrow>
     jsstring \<Rightarrow> parameters option \<Rightarrow> bool \<Rightarrow> 'h jsval \<Rightarrow> error + jsstring" where
  "select_form H plurals language msgid n languageKey ps disableHtmlEscaping translated =
     (case translated of
        VStr s \<Rightarrow> Inr (interp language disableHtmlEscaping s ps)
      | _ \<Rightarrow> plural_form H plurals language msgid n languageKey ps disableHtmlEscaping
               translated)"

text \<open>
  \<^verbatim>\<open>getTranslation\<close>, lines 17-99. The result is the list of the warnings written to
  the console, and either the string returned or the way the call ends without one.
\<close>

definition getTranslation ::
  "'h host \<Rightarrow> (jsstring \<Rightarrow> int option \<Rightarrow> nat) \<Rightarrow> Language \<Rightarrow> jsstring \<Rightarrow> int option \<Rightarrow>
     jsstring option \<Rightarrow> jsstring option \<Rightarrow> jsstring option \<Rightarrow> parameters option \<Rightarrow> bool \<Rightarrow>
     jsstring list \<times> (error + jsstring)" where
  "getTranslation H plurals language msgid n context defaultPlural languageKey ps
       disableHtmlEscaping =
     (let key = language_key language languageKey in
      if msgid = [] then ([], Inr [])
      else
        let quiet = is_silent language key;
            fallback = Inr (interp language disableHtmlEscaping
                         (untranslated plurals msgid n defaultPlural key) ps)
        in case find_translations H (translations_of language) key of
             Inl e \<Rightarrow> ([], Inl e)
           | Inr table \<Rightarrow>
               if \<not> truthy_val table
               then (if quiet then [] else [js ''No translations found for '' @ key], fallback)
               else
                 (let trimmed = trim msgid
                  in case lookup_translated H table trimmed context of
                       Inl e \<Rightarrow> ([], Inl e)
                     | Inr translated \<Rightarrow>
                         if \<not> truthy_val translated
                         then (if quiet then []
                               else [untranslated_warning key trimmed context],
                               fallback)
                         else (case unwrap_void H translated of
                                 Inl e \<Rightarrow> ([], Inl e)
                               | Inr v \<Rightarrow>
                                   ([], select_form H plurals language trimmed n key ps
                                          disableHtmlEscaping v))))"

text \<open>Lines 111-181: the four wrappers; an omitted \<open>n\<close> takes its default 1.\<close>

definition gettext ::
  "'h host \<Rightarrow> (jsstring \<Rightarrow> int option \<Rightarrow> nat) \<Rightarrow> Language \<Rightarrow> jsstring \<Rightarrow> parameters option \<Rightarrow>
     bool \<Rightarrow> jsstring list \<times> (error + jsstring)" where
  "gettext H plurals language msgid ps disableHtmlEscaping =
     getTranslation H plurals language msgid (Some 1) None None None ps disableHtmlEscaping"

definition pgettext ::
  "'h host \<Rightarrow> (jsstring \<Rightarrow> int option \<Rightarrow> nat) \<Rightarrow> Language \<Rightarrow> jsstring \<Rightarrow> jsstring \<Rightarrow>
     parameters option \<Rightarrow> bool \<Rightarrow> jsstring list \<times> (error + jsstring)" where
  "pgettext H plurals language context msgid ps disableHtmlEscaping =
     getTranslation H plurals language msgid (Some 1) (Some context) None None ps
       disableHtmlEscaping"

definition ngettext ::
  "'h host \<Rightarrow> (jsstring \<Rightarrow> int option \<Rightarrow> nat) \<Rightarrow> Language \<Rightarrow> jsstring \<Rightarrow> jsstring \<Rightarrow> int \<Rightarrow>
     parameters option \<Rightarrow> bool \<Rightarrow> jsstring list \<times> (error + jsstring)" where
  "ngettext H plurals language msgid plural n ps disableHtmlEscaping =
     getTranslation H plurals language msgid (Some n) None (Some plural) None ps
       disableHtmlEscaping"

definition npgettext ::
  "'h host \<Rightarrow> (jsstring \<Rightarrow> int option \<Rightarrow> nat) \<Rightarrow> Language \<Rightarrow> jsstring \<Rightarrow> jsstring \<Rightarrow> jsstring \<Rightarrow>
     int \<Rightarrow> parameters option \<Rightarrow> bool \<Rightarrow> jsstring list \<times> (error + jsstring)" where
  "npgettext H plurals language context msgid plural n ps disableHtmlEscaping =
     getTranslation H plurals language msgid (Some n) (Some context) (Some plural) None ps
       disableHtmlEscaping"

text \<open>
  The tests of lines 51 and 67. \<open>translation_found\<close>: both reads end without an
  exception and find a truthy value. \<open>no_translation\<close>: the reads end without an
  exception and one of the two tests takes the branch of the untranslated text.
\<close>

definition translation_found ::
  "'h host \<Rightarrow> Language \<Rightarrow> jsstring \<Rightarrow> jsstring \<Rightarrow> jsstring option \<Rightarrow> bool" where
  "translation_found H language key msgid context =
     (case find_translations H (translations_of language) key of
        Inl e \<Rightarrow> False
      | Inr table \<Rightarrow>
          if truthy_val table
          then (case lookup_translated H table (trim msgid) context of
                  Inl e \<Rightarrow> False
                | Inr translated \<Rightarrow> truthy_val translated)
          else False)"

definition no_translation ::
  "'h host \<Rightarrow> Language \<Rightarrow> jsstring \<Rightarrow> jsstring \<Rightarrow> jsstring option \<Rightarrow> bool" where
  "no_translation H language key msgid context =
     (case find_translations H (translations_of language) key of
        Inl e \<Rightarrow> False
      | Inr table \<Rightarrow>
          if truthy_val table
          then (case lookup_translated H table (trim msgid) context of
                  Inl e \<Rightarrow> False
                | Inr translated \<Rightarrow> \<not> truthy_val translated)
          else True)"

section \<open>Sample plural rules, languages and built-in objects\<close>

text \<open>
  Modelled from the spec: \<^verbatim>\<open>plurals.ts\<close> is not among the sources. Section 4.1 of
  the specification gives the rule of an unrecognised language: index 0 for the count 1,
  index 1 otherwise. The second rule is one whose index for the count 1 is not 0.
\<close>

definition binary_plural :: "jsstring \<Rightarrow> int option \<Rightarrow> nat" where
  "binary_plural languageKey n = (if n = Some 1 then 0 else 1)"

definition zero_one_other :: "jsstring \<Rightarrow> int option \<Rightarrow> nat" where
  "zero_one_other languageKey n = (if n = Some 0 then 0 else if n = Some 1 then 1 else 2)"

text \<open>
  A stand-in for \<^verbatim>\<open>interpolate.ts\<close> in the examples: it appends the value of the
  parameter \<open>name\<close> to the message.
\<close>

definition append_name :: "jsstring \<Rightarrow> parameters \<Rightarrow> bool \<Rightarrow> jsstring" where
  "append_name message p e = message @ (case p (js ''name'') of None \<Rightarrow> [] | Some v \<Rightarrow> v)"

definition plain_language :: "jsstring \<Rightarrow> Translations \<Rightarrow> Language" where
  "plain_language k dict =
     \<lparr>current = k, translations_of = dict, muted = [], silent = False,
      interpolate = append_name\<rparr>"

text \<open>
  The message key \<open>Hello\<close> with every white space and line terminator of
  ECMAScript before it and after it.
\<close>

definition wrapped_Hello :: jsstring where
  "wrapped_Hello =
     [0x09, 0x0A, 0x0B, 0x0C, 0x0D, 0x20, 0xA0, 0x1680, 0x2000, 0x2001, 0x2002, 0x2003,
      0x2004, 0x2005, 0x2006, 0x2007, 0x2008, 0x2009, 0x200A, 0x2028, 0x2029, 0x202F, 0x205F,
      0x3000, 0xFEFF] @ js ''Hello'' @
     [0xFEFF, 0x3000, 0x205F, 0x202F, 0x2029, 0x2028, 0x200A, 0x2009, 0x2008, 0x2007, 0x2006,
      0x2005, 0x2004, 0x2003, 0x2002, 0x2001, 0x2000, 0x1680, 0xA0, 0x20, 0x0D, 0x0C, 0x0B,
      0x0A, 0x09]"

text \<open>
  A part of the built-in objects of ECMAScript, for the examples. The only objects
  are functions, known by the number of their parameters, which is their
  \<^verbatim>\<open>length\<close>. Every prototype has \<^verbatim>\<open>constructor\<close>, \<^verbatim>\<open>hasOwnProperty\<close>,
  \<^verbatim>\<open>isPrototypeOf\<close> and \<^verbatim>\<open>propertyIsEnumerable\<close> (one parameter),
  \<^verbatim>\<open>valueOf\<close> and \<^verbatim>\<open>toLocaleString\<close> (none) and \<^verbatim>\<open>toString\<close> (one
  parameter for the numbers, none otherwise); the prototype of the strings has
  \<^verbatim>\<open>link\<close> (one parameter) as well. A function answers the name
  \<^verbatim>\<open>length\<close> and no array index, the only names the examples read on one.
\<close>

datatype builtin = Function nat

definition es_host :: "builtin host" where
  "es_host =
     \<lparr>inherited = (\<lambda>pr p.
        if p \<in> set [js ''constructor'', js ''hasOwnProperty'', js ''isPrototypeOf'',
                    js ''propertyIsEnumerable'']
        then Inr (VHost (Function 1))
        else if p \<in> set [js ''valueOf'', js ''toLocaleString'']
        then Inr (VHost (Function 0))
        else if p = js ''toString''
        then Inr (VHost (Function (if pr = NumberProto then 1 else 0)))
        else if pr = StringProto \<and> p = js ''link''
        then Inr (VHost (Function 1))
        else Inr VUndefined),
      host_get = (\<lambda>h p. case h of Function k \<Rightarrow>
        if p = js ''length'' then Inr (VNum k) else Inr VUndefined),
      host_is_array = (\<lambda>h. False),
      host_has_own = (\<lambda>h. Inr False)\<rparr>"

section \<open>Basic facts\<close>

lemma js_eq_iff [simp]: "js s = js t \<longleftrightarrow> s = t"
proof -
  have "inj (of_char :: char \<Rightarrow> nat)"
    by (rule injI) simp
  then show ?thesis
    by (simp add: js_def inj_map_eq_map)
qed

lemma js_Nil_iff [simp]: "js s = [] \<longleftrightarrow> s = []" "[] = js s \<longleftrightarrow> s = []"
  by (auto simp: js_def)

lemma js_append [simp]: "js s @ js t = js (s @ t)"
  by (simp add: js_def)

lemma family_js [simp]: "family (js s) = js (takeWhile (\<lambda>c. c \<noteq> CHR ''_'') s)"
proof -
  have "(of_char c :: nat) \<noteq> 95 \<longleftrightarrow> c \<noteq> CHR ''_''" for c
  proof -
    have "(of_char c :: nat) = of_char CHR ''_'' \<longleftrightarrow> c = CHR ''_''"
      by (rule of_char_eq_iff)
    then show ?thesis by simp
  qed
  then show ?thesis
    by (simp add: family_def js_def takeWhile_map comp_def)
qed

text \<open>Numerals: \<open>index_of\<close> inverts \<open>decimal\<close>, and a numeral has digits only.\<close>

lemma value_of_snoc: "value_of (p @ [c]) = 10 * value_of p + (c - 48)"
  by (simp add: value_of_def)

lemma value_of_decimal: "value_of (decimal n) = n"
proof (induction n rule: decimal.induct)
  case (1 n)
  show ?case
  proof (cases "n < 10")
    case True
    then show ?thesis
      by (simp add: decimal.simps[of n] value_of_def)
  next
    case False
    have "value_of (decimal n) = 10 * value_of (decimal (n div 10)) + n mod 10"
      using False by (simp add: decimal.simps[of n] value_of_snoc)
    also have "\<dots> = 10 * (n div 10) + n mod 10"
      using 1 False by simp
    finally show ?thesis by simp
  qed
qed

lemma index_of_decimal [simp]: "index_of (decimal i) = Some i"
  by (simp add: index_of_def value_of_decimal)

lemma decimal_digits: "c \<in> set (decimal n) \<Longrightarrow> c < 58"
proof (induction n rule: decimal.induct)
  case (1 n)
  then show ?case
    by (cases "n < 10") (auto simp: decimal.simps[of n])
qed

lemma index_of_letter: "c \<in> set p \<Longrightarrow> 58 \<le> c \<Longrightarrow> index_of p = None"
proof (cases "index_of p")
  case None
  then show ?thesis .
next
  case (Some i)
  assume "c \<in> set p" "58 \<le> c"
  moreover from Some have "decimal (value_of p) = p"
    by (simp add: index_of_def split: if_splits)
  ultimately have "c < 58"
    using decimal_digits[of c "value_of p"] by simp
  with \<open>58 \<le> c\<close> show ?thesis by simp
qed

lemma index_of_js [simp]: "list_ex (\<lambda>c. 58 \<le> (of_char c :: nat)) s \<Longrightarrow> index_of (js s) = None"
proof -
  assume "list_ex (\<lambda>c. 58 \<le> (of_char c :: nat)) s"
  then obtain c where "c \<in> set s" "58 \<le> (of_char c :: nat)"
    by (auto simp: list_ex_iff)
  then have "of_char c \<in> set (js s)" "58 \<le> (of_char c :: nat)"
    by (simp_all add: js_def)
  then show ?thesis by (rule index_of_letter)
qed

lemma index_of_Nil [simp]: "index_of [] = None"
  by (simp add: index_of_def value_of_def decimal.simps)

lemma decimal_small: "decimal 0 = js ''0''" "decimal 1 = js ''1''" "decimal 2 = js ''2''"
  by (simp_all add: decimal.simps js_def)

text \<open>Trimming leaves no white space at either end, so trimming twice changes nothing.\<close>

lemma dropWhile_trim: "dropWhile is_space (trim s) = trim s"
proof -
  define a where "a = dropWhile is_space s"
  define d where "d = dropWhile is_space (rev a)"
  have split: "a = rev d @ rev (takeWhile is_space (rev a))"
    unfolding d_def by (metis rev_append rev_rev_ident takeWhile_dropWhile_id)
  have "rev d = [] \<or> \<not> is_space (hd (rev d))"
  proof (cases "rev d = []")
    case True
    then show ?thesis by simp
  next
    case False
    then have "hd (rev d) = hd a" using split by (metis hd_append2)
    moreover have "a \<noteq> []" using False split by auto
    then have "\<not> is_space (hd a)" unfolding a_def by (rule hd_dropWhile)
    ultimately show ?thesis by simp
  qed
  then have "dropWhile is_space (rev d) = rev d"
    by (simp add: dropWhile_eq_self_iff)
  then show ?thesis by (simp add: trim_def a_def d_def)
qed

lemma trim_idem: "trim (trim s) = trim s"
proof -
  have "trim (trim s) = rev (dropWhile is_space (rev (trim s)))"
    by (simp add: trim_def[of "trim s"] dropWhile_trim)
  also have "\<dots> = trim s"
    by (simp add: trim_def)
  finally show ?thesis .
qed

lemma trim_Nil: "trim [] = []"
  by (simp add: trim_def)

lemma trim_Hello: "trim (js ''Hello'') = js ''Hello''"
  by (simp add: trim_def is_space_def js_def)

lemma trim_wrapped_Hello: "trim wrapped_Hello = js ''Hello''"
  by (simp add: wrapped_Hello_def trim_def is_space_def js_def)

text \<open>
  The next line (U+0085), the Mongolian vowel separator (U+180E) and the zero width
  space (U+200B) are not white space for \<^verbatim>\<open>trim\<close>.
\<close>

lemma trim_keeps_other_separators:
  "trim (0x85 # js ''Hello'') = 0x85 # js ''Hello''"
  "trim (0x180E # js ''Hello'') = 0x180E # js ''Hello''"
  "trim (js ''Hello'' @ [0x200B]) = js ''Hello'' @ [0x200B]"
  by (simp_all add: trim_def is_space_def js_def)

lemma trim_spaced_Hello: "trim (js ''  Hello  '') = js ''Hello''"
  by (simp add: trim_def is_space_def js_def)

lemma trim_Book: "trim (js ''Book'') = js ''Book''"
  by (simp add: trim_def is_space_def js_def)

lemma trim_constructor: "trim (js ''constructor'') = js ''constructor''"
  by (simp add: trim_def is_space_def js_def)

lemma trim_blank: "trim (js ''  '') = []"
  by (simp add: trim_def is_space_def js_def)

text \<open>The sample language and the sample built-in objects.\<close>

lemma plain_language_fields [simp]:
  "current (plain_language k d) = k"
  "translations_of (plain_language k d) = d"
  "muted (plain_language k d) = []"
  "silent (plain_language k d) = False"
  "interpolate (plain_language k d) = append_name"
  by (simp_all add: plain_language_def)

lemma es_host_fields [simp]:
  "inherited es_host pr p =
     (if p \<in> set [js ''constructor'', js ''hasOwnProperty'', js ''isPrototypeOf'',
                  js ''propertyIsEnumerable'']
      then Inr (VHost (Function 1))
      else if p \<in> set [js ''valueOf'', js ''toLocaleString'']
      then Inr (VHost (Function 0))
      else if p = js ''toString''
      then Inr (VHost (Function (if pr = NumberProto then 1 else 0)))
      else if pr = StringProto \<and> p = js ''link''
      then Inr (VHost (Function 1))
      else Inr VUndefined)"
  "host_get es_host (Function k) p = (if p = js ''length'' then Inr (VNum k) else Inr VUndefined)"
  "host_is_array es_host h = False"
  "host_has_own es_host h = Inr False"
  by (simp_all add: es_host_def)

text \<open>The two ways through \<^verbatim>\<open>getTranslation\<close> for a non-empty key when no read throws.\<close>

lemma getTranslation_not_found:
  assumes "msgid \<noteq> []"
    and "no_translation H L (language_key L lk) msgid ctx"
  shows "snd (getTranslation H pl L msgid n ctx dp lk ps esc) =
           Inr (interp L esc (untranslated pl msgid n dp (language_key L lk)) ps)"
    and "fst (getTranslation H pl L msgid n ctx dp lk ps esc) = [] \<longleftrightarrow>
           is_silent L (language_key L lk)"
  using assms
  by (auto simp: getTranslation_def no_translation_def Let_def split: sum.splits if_splits)

lemma getTranslation_found:
  assumes "msgid \<noteq> []"
    and "find_translations H (translations_of L) (language_key L lk) = Inr table"
    and "truthy_val table"
    and "lookup_translated H table (trim msgid) ctx = Inr e"
    and "truthy_val e"
  shows "getTranslation H pl L msgid n ctx dp lk ps esc =
    (case unwrap_void H e of
       Inl err \<Rightarrow> ([], Inl err)
     | Inr v \<Rightarrow> ([], select_form H pl L (trim msgid) n (language_key L lk) ps esc v))"
  using assms
  by (simp add: getTranslation_def Let_def)

lemma translation_foundE:
  assumes "translation_found H L k msgid ctx"
  obtains table e where "find_translations H (translations_of L) k = Inr table"
    and "truthy_val table"
    and "lookup_translated H table (trim msgid) ctx = Inr e"
    and "truthy_val e"
  using assms
  by (auto simp: translation_found_def split: sum.splits if_splits)

lemma unwrap_void_Arr_truthy:
  "unwrap_void H e = Inr (VArr xs) \<Longrightarrow> truthy_val e"
  by (cases e) (auto simp: unwrap_void_def split: if_splits sum.splits)

text \<open>The fields read by each operation.\<close>

lemma interp_settings [simp]:
  "interp (L\<lparr>silent := b, muted := ms\<rparr>) esc s ps = interp L esc s ps"
  by (cases ps) (simp_all add: interp_def)

lemma interp_dictionary [simp]:
  "interp (L\<lparr>translations_of := d\<rparr>) esc s ps = interp L esc s ps"
  by (cases ps) (simp_all add: interp_def)

lemma plural_form_settings [simp]:
  "plural_form H pl (L\<lparr>silent := b, muted := ms\<rparr>) msgid n k ps esc v =
   plural_form H pl L msgid n k ps esc v"
  by (simp add: plural_form_def Let_def split: sum.splits jsval.splits)

lemma plural_form_dictionary [simp]:
  "plural_form H pl (L\<lparr>translations_of := d\<rparr>) msgid n k ps esc v =
   plural_form H pl L msgid n k ps esc v"
  by (simp add: plural_form_def Let_def split: sum.splits jsval.splits)

lemma select_form_settings [simp]:
  "select_form H pl (L\<lparr>silent := b, muted := ms\<rparr>) msgid n k ps esc v =
   select_form H pl L msgid n k ps esc v"
  by (simp add: select_form_def split: jsval.splits)

lemma select_form_dictionary [simp]:
  "select_form H pl (L\<lparr>translations_of := d\<rparr>) msgid n k ps esc v =
   select_form H pl L msgid n k ps esc v"
  by (simp add: select_form_def split: jsval.splits)

lemma is_silent_dictionary [simp]:
  "is_silent (L\<lparr>translations_of := d\<rparr>) k = is_silent L k"
  by (simp add: is_silent_def)

lemma language_key_settings [simp]:
  "language_key (L\<lparr>silent := b, muted := ms\<rparr>) lk = language_key L lk"
  by (cases lk) (simp_all add: language_key_def)

lemma language_key_dictionary [simp]:
  "language_key (L\<lparr>translations_of := d\<rparr>) lk = language_key L lk"
  by (cases lk) (simp_all add: language_key_def)

text \<open>The plural selection on a stored list of forms.\<close>

lemma plural_form_Arr:
  "plural_form H pl L msgid n k ps esc (VArr xs) =
     (let idx = (if length xs = 1 \<and> n = Some 1 then 0 else pl k n)
      in if idx < length xs \<and> xs ! idx \<noteq> [] then Inr (interp L esc (xs ! idx) ps)
         else Inl (Error msgid idx (current L) n))"
  by (simp add: plural_form_def Let_def)

section \<open>The empty message key\<close>

text \<open>
  C4. For the empty message key \<^verbatim>\<open>getTranslation\<close> returns the empty string at once:
  no warning is written and the result does not go through the interpolation, whatever
  the built-in objects, the plural rule, the language settings (its \<^verbatim>\<open>interpolate\<close>
  included), the count, the context, the default plural, the language key, the
  parameters and the escaping flag are.
\<close>

theorem empty_msgid_returns_empty:
  "getTranslation H plurals language [] n context defaultPlural languageKey ps
     disableHtmlEscaping = ([], Inr [])"
  by (simp add: getTranslation_def)

section \<open>Missing language and missing translation\<close>

text \<open>
  C1 fails on the source. The table stores \<open>Hello\<close> only. The message key
  \<open>constructor\<close> is not stored, but the read of line 61 finds the function that every
  object inherits under this name: it is truthy, it is no string, its \<^verbatim>\<open>length\<close> is
  1, it has no element 0, and line 96 throws where the untranslated key was to come
  back. In the same way the context \<open>link\<close> asked of the plain entry \<open>Hello\<close>
  finds, at line 64, the method that every string inherits.
\<close>

theorem inherited_member_throws:
  "[js ''Hello'' \<mapsto> Msg (Str (js ''Bonjour''))] (js ''constructor'') = None \<and>
   getTranslation es_host binary_plural
     (plain_language (js ''en'') [js ''en'' \<mapsto> [js ''Hello'' \<mapsto> Msg (Str (js ''Bonjour''))]])
     (js ''constructor'') (Some 1) None None None None False =
     ([], Inl (Error (js ''constructor'') 0 (js ''en'') (Some 1))) \<and>
   getTranslation es_host binary_plural
     (plain_language (js ''en'') [js ''en'' \<mapsto> [js ''Hello'' \<mapsto> Msg (Str (js ''Bonjour''))]])
     (js ''Hello'') (Some 1) (Some (js ''link'')) None None None False =
     ([], Inl (Error (js ''Hello'') 0 (js ''en'') (Some 1)))"
  by (simp add: getTranslation_def Let_def language_key_def find_translations_def
      lookup_language_def lookup_translated_def inherit_def trim_constructor trim_Hello
      val_of_entry_def val_of_message_def unwrap_void_def select_form_def plural_form_def
      decimal_small)

text \<open>
  Where the table stores nothing under the trimmed key and nothing is inherited under
  this name, the call does write the warning and return the untranslated text.
\<close>

lemma missing_key_falls_back:
  assumes "msgid \<noteq> []"
    and "find_translations H (translations_of L) (language_key L lk) = Inr (VTab t)"
    and "t (trim msgid) = None"
    and "inherit H ObjectProto (trim msgid) = Inr VUndefined"
  shows "getTranslation H pl L msgid n ctx dp lk ps esc =
    (if is_silent L (language_key L lk) then []
     else [untranslated_warning (language_key L lk) (trim msgid) ctx],
     Inr (interp L esc (untranslated pl msgid n dp (language_key L lk)) ps))"
proof -
  have "lookup_translated H (VTab t) (trim msgid) ctx = Inr VUndefined"
    using assms(3,4) by (cases ctx) (simp_all add: lookup_translated_def)
  then show ?thesis
    using assms(1,2) by (simp add: getTranslation_def Let_def)
qed

section \<open>The untranslated text\<close>

text \<open>
  C6 as the source has it. Whenever no translation is found for a non-empty message
  key, the value returned is the interpolation of the default plural if the default
  plural is given, is not the empty string, and the plural index of the language key
  and the count is greater than 0; it is the interpolation of the message key as given
  otherwise.
\<close>

theorem untranslated_value:
  assumes "msgid \<noteq> []"
    and "no_translation H L (language_key L lk) msgid ctx"
  shows "snd (getTranslation H pl L msgid n ctx dp lk ps esc) =
         Inr (interp L esc
                (case dp of
                   None \<Rightarrow> msgid
                 | Some d \<Rightarrow> if d \<noteq> [] \<and> 0 < pl (language_key L lk) n then d else msgid)
                ps)"
  using getTranslation_not_found(1)[OF assms, of pl n dp ps esc]
  by (simp add: untranslated_def)

text \<open>
  No table for \<open>xx_YY\<close>, the count 2: the default plural comes back, interpolated
  with the parameters.
\<close>

theorem untranslated_value_witness:
  "snd (getTranslation es_host binary_plural (plain_language (js ''xx_YY'') Map.empty)
          (js ''Hello'') (Some 2) None (Some (js ''Hellos '')) None
          (Some [js ''name'' \<mapsto> js ''Ann'']) False) = Inr (js ''Hellos Ann'')"
proof -
  let ?L = "plain_language (js ''xx_YY'') Map.empty"
  have h1: "js ''Hello'' \<noteq> []" by simp
  have h2: "no_translation es_host ?L (language_key ?L None) (js ''Hello'') None"
    by (simp add: no_translation_def find_translations_def lookup_language_def inherit_def
        language_key_def)
  show ?thesis
    using untranslated_value[OF h1 h2, of binary_plural "Some 2" "Some (js ''Hellos '')"
        "Some [js ''name'' \<mapsto> js ''Ann'']" False]
    by (simp add: interp_def binary_plural_def append_name_def)
qed

text \<open>
  C6 as stated fails for a default plural that is given as the empty string: the plural
  index is 1, and the message key comes back, not the default plural.
\<close>

theorem empty_default_plural_not_returned:
  "0 < binary_plural (js ''xx_YY'') (Some 2) \<and>
   snd (getTranslation es_host binary_plural (plain_language (js ''xx_YY'') Map.empty)
          (js ''Hello'') (Some 2) None (Some []) None None False) = Inr (js ''Hello'')"
  by (simp add: getTranslation_def Let_def language_key_def is_silent_def
      find_translations_def lookup_language_def inherit_def untranslated_def
      interp_def binary_plural_def)

section \<open>Warnings\<close>

text \<open>
  C3 as the source has it. In a call with a non-empty message key that finds no
  translation, the warning is suppressed exactly when the language key is not the
  empty string and either \<^verbatim>\<open>silent\<close> is set or the language key is in the
  \<^verbatim>\<open>muted\<close> list. For the empty language key the warning is never suppressed.
\<close>

theorem warnings_suppressed_iff:
  assumes "msgid \<noteq> []"
    and "no_translation H L (language_key L lk) msgid ctx"
  shows "fst (getTranslation H pl L msgid n ctx dp lk ps esc) = [] \<longleftrightarrow>
         language_key L lk \<noteq> [] \<and>
         (silent L \<or> language_key L lk \<in> set (muted L))"
  using getTranslation_not_found(2)[OF assms, of pl n dp ps esc]
  by (simp add: is_silent_def)

text \<open>The language \<open>xx_YY\<close> is muted and has no table: no warning.\<close>

theorem warnings_suppressed_iff_witness:
  "fst (getTranslation es_host binary_plural
          ((plain_language (js ''xx_YY'') Map.empty)\<lparr>muted := [js ''xx_YY'']\<rparr>)
          (js ''Hello'') (Some 1) None None None None False) = []"
proof -
  let ?L = "(plain_language (js ''xx_YY'') Map.empty)\<lparr>muted := [js ''xx_YY'']\<rparr>"
  have h1: "js ''Hello'' \<noteq> []" by simp
  have h2: "no_translation es_host ?L (language_key ?L None) (js ''Hello'') None"
    by (simp add: no_translation_def find_translations_def lookup_language_def inherit_def
        language_key_def)
  show ?thesis
    using warnings_suppressed_iff[OF h1 h2, of binary_plural "Some 1" None None False]
    by (simp add: language_key_def)
qed

text \<open>
  C3 as stated fails for the empty language key: \<^verbatim>\<open>silent\<close> is set, and the
  warning is written all the same.
\<close>

theorem silent_ignored_for_empty_language_key:
  "silent ((plain_language [] Map.empty)\<lparr>silent := True\<rparr>) \<and>
   fst (getTranslation es_host binary_plural
          ((plain_language [] Map.empty)\<lparr>silent := True\<rparr>)
          (js ''Hello'') (Some 1) None None None None False) =
     [js ''No translations found for '']"
  by (simp add: getTranslation_def Let_def language_key_def is_silent_def
      find_translations_def lookup_language_def inherit_def family_def)

text \<open>
  C10. Two calls that differ only in the \<^verbatim>\<open>silent\<close> flag and the \<^verbatim>\<open>muted\<close> list
  of the language settings have the same outcome: the same string returned, or the same
  error thrown.
\<close>

theorem silent_and_muted_keep_outcome:
  "snd (getTranslation H pl (L\<lparr>silent := b, muted := ms\<rparr>) msgid n ctx dp lk ps esc) =
   snd (getTranslation H pl L msgid n ctx dp lk ps esc)"
  by (simp add: getTranslation_def Let_def split: sum.splits)

section \<open>The family of a language key\<close>



section \<open>Plural forms\<close>

text \<open>
  C2, in part. When the value resolved for a non-empty message key (the entry of the
  trimmed key, of the context when one is asked for, unwrapped from a void context) is
  a stored list of plural forms, and the form at the plural index (0 for a list of one
  form and the count 1, the index of the plural rule otherwise) is missing or the empty
  string, \<^verbatim>\<open>getTranslation\<close> throws: no fallback string is returned and no warning
  is written, whatever the \<^verbatim>\<open>silent\<close> flag and the \<^verbatim>\<open>muted\<close> list are. The
  error carries the trimmed key, the plural index and the count; the language it
  carries is \<^verbatim>\<open>language.current\<close>, which is not the language of the lookup when
  the call gives a language key of its own.
\<close>

theorem malformed_plural_throws:
  assumes "msgid \<noteq> []"
    and "find_translations H (translations_of L) (language_key L lk) = Inr (VTab t)"
    and "lookup_translated H (VTab t) (trim msgid) ctx = Inr e"
    and "unwrap_void H e = Inr (VArr xs)"
    and "idx = (if length xs = 1 \<and> n = Some 1 then 0 else pl (language_key L lk) n)"
    and "length xs \<le> idx \<or> xs ! idx = []"
  shows "getTranslation H pl (L\<lparr>silent := b, muted := ms\<rparr>) msgid n ctx dp lk ps esc =
         ([], Inl (Error (trim msgid) idx (current L) n))"
proof -
  have "truthy_val e" using assms(4) by (rule unwrap_void_Arr_truthy)
  then have "getTranslation H pl (L\<lparr>silent := b, muted := ms\<rparr>) msgid n ctx dp lk ps esc =
    ([], select_form H pl L (trim msgid) n (language_key L lk) ps esc (VArr xs))"
    using assms(1-4)
      getTranslation_found[of msgid H "L\<lparr>silent := b, muted := ms\<rparr>" lk "VTab t" ctx e]
    by simp
  moreover have "select_form H pl L (trim msgid) n (language_key L lk) ps esc (VArr xs) =
    Inl (Error (trim msgid) idx (current L) n)"
    using assms(5,6) by (auto simp: select_form_def plural_form_Arr Let_def)
  ultimately show ?thesis by simp
qed

text \<open>
  The current language is \<open>en\<close>, the call asks for \<open>de_DE\<close>, whose table has one
  form only for \<open>Hello\<close>; the count is 3, so the index 1 has no form. The error is
  thrown although the call is silent and the language muted, and it names \<open>en\<close>.
\<close>

theorem malformed_plural_throws_witness:
  "getTranslation es_host binary_plural
     ((plain_language (js ''en'')
         [js ''de_DE'' \<mapsto> [js ''Hello'' \<mapsto> Msg (Arr [js ''Hallo''])]])
        \<lparr>silent := True, muted := [js ''de_DE'']\<rparr>)
     (js ''Hello'') (Some 3) None None (Some (js ''de_DE'')) None False =
   ([], Inl (Error (js ''Hello'') 1 (js ''en'') (Some 3)))"
proof -
  let ?t = "[js ''Hello'' \<mapsto> Msg (Arr [js ''Hallo''])]"
  let ?L = "plain_language (js ''en'') [js ''de_DE'' \<mapsto> ?t]"
  have k: "language_key ?L (Some (js ''de_DE'')) = js ''de_DE''"
    by (simp add: language_key_def)
  have h1: "js ''Hello'' \<noteq> []" by simp
  have h2: "find_translations es_host (translations_of ?L) (language_key ?L (Some (js ''de_DE'')))
            = Inr (VTab ?t)"
    by (simp add: k find_translations_def lookup_language_def)
  have h3: "lookup_translated es_host (VTab ?t) (trim (js ''Hello'')) None =
            Inr (VArr [js ''Hallo''])"
    by (simp add: trim_Hello lookup_translated_def val_of_entry_def val_of_message_def)
  have h4: "unwrap_void es_host (VArr [js ''Hallo'']) = Inr (VArr [js ''Hallo''])"
    by (simp add: unwrap_void_def)
  have h5: "(1::nat) = (if length [js ''Hallo''] = 1 \<and> Some (3::int) = Some 1 then 0
                 else binary_plural (language_key ?L (Some (js ''de_DE''))) (Some 3))"
    by (simp add: binary_plural_def)
  have h6: "length [js ''Hallo''] \<le> (1::nat) \<or> [js ''Hallo''] ! 1 = []"
    by simp
  show ?thesis
    using malformed_plural_throws[where H = es_host and pl = binary_plural and n = "Some 3"
        and idx = 1 and b = True and ms = "[js ''de_DE'']" and dp = None and ps = None
        and esc = False, OF h1 h2 h3 h4 h5 h6]
    by (simp add: trim_Hello)
qed

text \<open>
  C8 as the source has it. When the value resolved for a non-empty message key is a
  stored list of exactly one form, and this form is not the empty string, the call
  with the count 1 returns this form interpolated, whatever index the plural rule
  gives. For any other count the index of the plural rule is used: the form is returned
  when the index is 0, and the error is thrown otherwise.
\<close>

theorem single_form_override:
  assumes "msgid \<noteq> []"
    and "find_translations H (translations_of L) (language_key L lk) = Inr (VTab t)"
    and "lookup_translated H (VTab t) (trim msgid) ctx = Inr e"
    and "unwrap_void H e = Inr (VArr [s])"
    and "s \<noteq> []"
  shows "getTranslation H pl L msgid (Some 1) ctx dp lk ps esc =
           ([], Inr (interp L esc s ps)) \<and>
         (n \<noteq> Some 1 \<longrightarrow>
            getTranslation H pl L msgid n ctx dp lk ps esc =
              ([], if pl (language_key L lk) n = 0 then Inr (interp L esc s ps)
                   else Inl (Error (trim msgid) (pl (language_key L lk) n) (current L) n)))"
proof -
  have tr: "truthy_val e" using assms(4) by (rule unwrap_void_Arr_truthy)
  have g: "getTranslation H pl L msgid n' ctx dp lk ps esc =
      ([], select_form H pl L (trim msgid) n' (language_key L lk) ps esc (VArr [s]))" for n'
    using getTranslation_found[OF assms(1,2) _ assms(3) tr, of pl n' dp ps esc] assms(4)
    by simp
  show ?thesis
    using assms(5) by (auto simp: g select_form_def plural_form_Arr Let_def)
qed

text \<open>
  A plural rule with index 1 for the count 1: the only form is returned for the count
  1, and the count 2 (index 2) throws.
\<close>

theorem single_form_override_witness:
  "getTranslation es_host zero_one_other
     (plain_language (js ''ar'') [js ''ar'' \<mapsto> [js ''Hello'' \<mapsto> Msg (Arr [js ''only form ''])]])
     (js ''Hello'') (Some 1) None None None (Some [js ''name'' \<mapsto> js ''Ann'']) False =
     ([], Inr (js ''only form Ann'')) \<and>
   getTranslation es_host zero_one_other
     (plain_language (js ''ar'') [js ''ar'' \<mapsto> [js ''Hello'' \<mapsto> Msg (Arr [js ''only form ''])]])
     (js ''Hello'') (Some 2) None None None (Some [js ''name'' \<mapsto> js ''Ann'']) False =
     ([], Inl (Error (js ''Hello'') 2 (js ''ar'') (Some 2)))"
proof -
  let ?t = "[js ''Hello'' \<mapsto> Msg (Arr [js ''only form ''])]"
  let ?L = "plain_language (js ''ar'') [js ''ar'' \<mapsto> ?t]"
  have h1: "js ''Hello'' \<noteq> []" by simp
  have h2: "find_translations es_host (translations_of ?L) (language_key ?L None) = Inr (VTab ?t)"
    by (simp add: language_key_def find_translations_def lookup_language_def)
  have h3: "lookup_translated es_host (VTab ?t) (trim (js ''Hello'')) None =
            Inr (VArr [js ''only form ''])"
    by (simp add: trim_Hello lookup_translated_def val_of_entry_def val_of_message_def)
  have h4: "unwrap_void es_host (VArr [js ''only form '']) = Inr (VArr [js ''only form ''])"
    by (simp add: unwrap_void_def)
  have h5: "js ''only form '' \<noteq> []" by simp
  show ?thesis
    using single_form_override[where H = es_host and pl = zero_one_other and n = "Some 2"
        and dp = None and ps = "Some [js ''name'' \<mapsto> js ''Ann'']" and esc = False,
        OF h1 h2 h3 h4 h5]
    by (simp add: interp_def append_name_def zero_one_other_def language_key_def trim_Hello)
qed

text \<open>
  C8 as stated fails for a list whose only form is the empty string: with the count 1
  the index is 0, the form there is falsy, and the error of line 96 is thrown.
\<close>

theorem single_empty_form_throws:
  "getTranslation es_host binary_plural
     (plain_language (js ''fr'') [js ''fr'' \<mapsto> [js ''Hello'' \<mapsto> Msg (Arr [[]])]])
     (js ''Hello'') (Some 1) None None None None False =
   ([], Inl (Error (js ''Hello'') 0 (js ''fr'') (Some 1)))"
  by (simp add: getTranslation_def Let_def language_key_def
      find_translations_def lookup_language_def trim_Hello lookup_translated_def
      val_of_entry_def val_of_message_def unwrap_void_def select_form_def plural_form_Arr)

section \<open>Contexts\<close>

text \<open>
  C7 as the source has it. Let the entry of a non-empty message key map the empty
  string to a form and a named context to another. Without a context (none, or the
  empty string), and when the entry stores no context named \<open>hasOwnProperty\<close>, the
  call resolves the form of the empty string: a string is returned interpolated, a
  list of plural forms goes through the plural selection. With the named context the
  call resolves the form of this context in the same way, provided this form is not
  the empty string; an empty form counts as no translation, and the call returns the
  untranslated text.
\<close>

theorem context_map_forms:
  assumes "msgid \<noteq> []"
    and "find_translations H (translations_of L) (language_key L lk) = Inr (VTab t)"
    and "t (trim msgid) = Some (Ctx m)"
    and "m [] = Some f"
    and "m c = Some g"
    and "c \<noteq> []"
    and "\<not> truthy ctx0"
  shows "(m (js ''hasOwnProperty'') = None \<longrightarrow>
          getTranslation H pl L msgid n ctx0 dp lk ps esc =
            ([], case f of
                   Str s \<Rightarrow> Inr (interp L esc s ps)
                 | Arr xs \<Rightarrow> select_form H pl L (trim msgid) n (language_key L lk) ps esc
                              (VArr xs))) \<and>
         (g \<noteq> Str [] \<longrightarrow>
          getTranslation H pl L msgid n (Some c) dp lk ps esc =
            ([], case g of
                   Str s \<Rightarrow> Inr (interp L esc s ps)
                 | Arr xs \<Rightarrow> select_form H pl L (trim msgid) n (language_key L lk) ps esc
                              (VArr xs))) \<and>
         (g = Str [] \<longrightarrow>
          snd (getTranslation H pl L msgid n (Some c) dp lk ps esc) =
            Inr (interp L esc (untranslated pl msgid n dp (language_key L lk)) ps))"
proof -
  have sel: "select_form H pl L (trim msgid) n (language_key L lk) ps esc (val_of_message h) =
      (case h of
         Str s \<Rightarrow> Inr (interp L esc s ps)
       | Arr xs \<Rightarrow> select_form H pl L (trim msgid) n (language_key L lk) ps esc (VArr xs))"
    for h
    by (cases h) (simp_all add: select_form_def val_of_message_def)
  have tab: "truthy_val (VTab t :: 'a jsval)" by simp
  have l0: "lookup_translated H (VTab t) (trim msgid) ctx0 = Inr (VObj m)"
    using assms(3,7)
    by (cases ctx0) (simp_all add: lookup_translated_def truthy_def val_of_entry_def)
  have t0: "truthy_val (VObj m :: 'a jsval)" by simp
  have u0: "unwrap_void H (VObj m) = Inr (val_of_message f)"
    if "m (js ''hasOwnProperty'') = None"
    using that assms(4) by (simp add: unwrap_void_def)
  have first: "getTranslation H pl L msgid n ctx0 dp lk ps esc =
      ([], select_form H pl L (trim msgid) n (language_key L lk) ps esc (val_of_message f))"
    if "m (js ''hasOwnProperty'') = None"
    using getTranslation_found[OF assms(1,2) tab l0 t0, of pl n dp ps esc] u0[OF that]
    by simp
  have l1: "lookup_translated H (VTab t) (trim msgid) (Some c) = Inr (val_of_message g)"
    using assms(3,5,6) by (simp add: lookup_translated_def val_of_entry_def)
  have t1: "truthy_val (val_of_message g :: 'a jsval)" if "g \<noteq> Str []"
    using that by (cases g) (simp_all add: val_of_message_def)
  have u1: "unwrap_void H (val_of_message g) = Inr (val_of_message g)"
    by (cases g) (simp_all add: unwrap_void_def val_of_message_def)
  have second: "getTranslation H pl L msgid n (Some c) dp lk ps esc =
      ([], select_form H pl L (trim msgid) n (language_key L lk) ps esc (val_of_message g))"
    if "g \<noteq> Str []"
    using getTranslation_found[OF assms(1,2) tab l1 t1[OF that], of pl n dp ps esc] u1
    by simp
  have third: "snd (getTranslation H pl L msgid n (Some c) dp lk ps esc) =
      Inr (interp L esc (untranslated pl msgid n dp (language_key L lk)) ps)"
    if "g = Str []"
  proof -
    have "no_translation H L (language_key L lk) msgid (Some c)"
      using that l1 assms(2) by (simp add: no_translation_def val_of_message_def)
    then show ?thesis
      by (rule getTranslation_not_found(1)[OF assms(1)])
  qed
  show ?thesis
    using first second third sel[of f] sel[of g] by simp
qed

text \<open>
  The entry of the specification, a plain form and a form for the context \<open>shelf\<close>,
  and with them an empty form for the context \<open>empty\<close>.
\<close>

theorem context_map_forms_witness:
  "getTranslation es_host binary_plural
     (plain_language (js ''en'') [js ''en'' \<mapsto> [js ''Book'' \<mapsto>
        Ctx [[] \<mapsto> Str (js ''plain form''), js ''shelf'' \<mapsto> Str (js ''shelf-context form''),
             js ''empty'' \<mapsto> Str []]]])
     (js ''Book'') (Some 1) None None None None False = ([], Inr (js ''plain form'')) \<and>
   getTranslation es_host binary_plural
     (plain_language (js ''en'') [js ''en'' \<mapsto> [js ''Book'' \<mapsto>
        Ctx [[] \<mapsto> Str (js ''plain form''), js ''shelf'' \<mapsto> Str (js ''shelf-context form''),
             js ''empty'' \<mapsto> Str []]]])
     (js ''Book'') (Some 1) (Some (js ''shelf'')) None None None False =
     ([], Inr (js ''shelf-context form'')) \<and>
   snd (getTranslation es_host binary_plural
     (plain_language (js ''en'') [js ''en'' \<mapsto> [js ''Book'' \<mapsto>
        Ctx [[] \<mapsto> Str (js ''plain form''), js ''shelf'' \<mapsto> Str (js ''shelf-context form''),
             js ''empty'' \<mapsto> Str []]]])
     (js ''Book'') (Some 1) (Some (js ''empty'')) None None None False) =
     Inr (js ''Book'')"
proof -
  let ?m = "[[] \<mapsto> Str (js ''plain form''), js ''shelf'' \<mapsto> Str (js ''shelf-context form''),
             js ''empty'' \<mapsto> Str []]"
  let ?t = "[js ''Book'' \<mapsto> Ctx ?m]"
  let ?L = "plain_language (js ''en'') [js ''en'' \<mapsto> ?t]"
  have h1: "js ''Book'' \<noteq> []" by simp
  have h2: "find_translations es_host (translations_of ?L) (language_key ?L None) = Inr (VTab ?t)"
    by (simp add: language_key_def find_translations_def lookup_language_def)
  have h3: "?t (trim (js ''Book'')) = Some (Ctx ?m)"
    by (simp add: trim_Book)
  have h4: "?m [] = Some (Str (js ''plain form''))" by simp
  have h5: "?m (js ''shelf'') = Some (Str (js ''shelf-context form''))" by simp
  have h6: "js ''shelf'' \<noteq> []" by simp
  have h7: "\<not> truthy None" by (simp add: truthy_def)
  have h8: "?m (js ''hasOwnProperty'') = None" by simp
  have e5: "?m (js ''empty'') = Some (Str [])" by simp
  have e6: "js ''empty'' \<noteq> []" by simp
  show ?thesis
    using context_map_forms[where H = es_host and pl = binary_plural and n = "Some 1"
        and dp = None and ps = None and esc = False, OF h1 h2 h3 h4 h5 h6 h7]
      context_map_forms[where H = es_host and pl = binary_plural and n = "Some 1"
        and dp = None and ps = None and esc = False, OF h1 h2 h3 h4 e5 e6 h7]
      h8
    by (simp add: interp_def untranslated_def language_key_def)
qed

text \<open>
  C7 as stated fails for a named context whose form is the empty string: the form is
  falsy at line 67, so the call warns and returns the message key, not the form. It
  also fails when the entry stores a context named \<open>hasOwnProperty\<close>: without a
  context, line 79 calls this stored string and throws.
\<close>

theorem empty_context_form_not_returned:
  "getTranslation es_host binary_plural
     (plain_language (js ''en'') [js ''en'' \<mapsto> [js ''Book'' \<mapsto>
        Ctx [[] \<mapsto> Str (js ''plain form''), js ''shelf'' \<mapsto> Str []]]])
     (js ''Book'') (Some 1) (Some (js ''shelf'')) None None None False =
     ([js ''Untranslated en key found: Book (with context: shelf)''], Inr (js ''Book'')) \<and>
   getTranslation es_host binary_plural
     (plain_language (js ''en'') [js ''en'' \<mapsto> [js ''Book'' \<mapsto>
        Ctx [[] \<mapsto> Str (js ''plain form''), js ''hasOwnProperty'' \<mapsto> Str (js ''owner'')]]])
     (js ''Book'') (Some 1) None None None None False =
     ([], Inl TypeError)"
  by (simp add: getTranslation_def Let_def language_key_def is_silent_def
      find_translations_def lookup_language_def trim_Book lookup_translated_def
      val_of_entry_def val_of_message_def unwrap_void_def untranslated_def
      untranslated_warning_def interp_def)

section \<open>White space around the message key\<close>

text \<open>
  C9 as the source has it. When the trimmed message key is not empty and a translation
  is found for it (the reads of lines 49 to 64 end with a truthy table and, in it, a
  truthy entry for the trimmed key and the context), the call has the same result,
  warnings included, as the call with the trimmed message key and the other arguments
  unchanged.
\<close>

theorem trimmed_msgid_same_result:
  assumes "trim msgid \<noteq> []"
    and "translation_found H L (language_key L lk) msgid ctx"
  shows "getTranslation H pl L msgid n ctx dp lk ps esc =
         getTranslation H pl L (trim msgid) n ctx dp lk ps esc"
proof -
  have ne: "msgid \<noteq> []"
    using assms(1) trim_Nil by auto
  from assms(2) obtain table e
    where t: "find_translations H (translations_of L) (language_key L lk) = Inr table"
      and tt: "truthy_val table"
      and e: "lookup_translated H table (trim msgid) ctx = Inr e"
      and tr: "truthy_val e"
    by (rule translation_foundE)
  have e': "lookup_translated H table (trim (trim msgid)) ctx = Inr e"
    using e by (simp add: trim_idem)
  show ?thesis
    using getTranslation_found[OF ne t tt e tr, of pl n dp ps esc]
      getTranslation_found[OF assms(1) t tt e' tr, of pl n dp ps esc, unfolded trim_idem]
    by simp
qed

text \<open>
  The key \<open>Hello\<close> with every white space and line terminator of ECMAScript before
  it and after it, against a table keyed by \<open>Hello\<close>.
\<close>

theorem trimmed_msgid_same_result_witness:
  "getTranslation es_host binary_plural
     (plain_language (js ''fr'') [js ''fr'' \<mapsto> [js ''Hello'' \<mapsto> Msg (Str (js ''Bonjour ''))]])
     wrapped_Hello (Some 1) None None None
     (Some [js ''name'' \<mapsto> js ''Ann'']) False =
   getTranslation es_host binary_plural
     (plain_language (js ''fr'') [js ''fr'' \<mapsto> [js ''Hello'' \<mapsto> Msg (Str (js ''Bonjour ''))]])
     (js ''Hello'') (Some 1) None None None (Some [js ''name'' \<mapsto> js ''Ann'']) False"
proof -
  let ?t = "[js ''Hello'' \<mapsto> Msg (Str (js ''Bonjour ''))]"
  let ?L = "plain_language (js ''fr'') [js ''fr'' \<mapsto> ?t]"
  have h1: "trim wrapped_Hello \<noteq> []"
    by (simp add: trim_wrapped_Hello)
  have h2: "translation_found es_host ?L (language_key ?L None)
              wrapped_Hello None"
    by (simp add: translation_found_def language_key_def find_translations_def
        lookup_language_def trim_wrapped_Hello lookup_translated_def val_of_entry_def
        val_of_message_def)
  show ?thesis
    using trimmed_msgid_same_result[where pl = binary_plural and n = "Some 1"
        and dp = None and ps = "Some [js ''name'' \<mapsto> js ''Ann'']" and esc = False,
        OF h1 h2]
    by (simp add: trim_wrapped_Hello)
qed

text \<open>
  C9 as stated fails in two ways. The table has the trimmed key \<open>Hello\<close>, but not
  for the context asked for: the fallback is the message key as given, with its spaces,
  and differs from the fallback of the trimmed key. And a message key of spaces only,
  against a table with an entry for the empty key, returns this entry, where the
  trimmed (empty) message key returns the empty string.
\<close>

theorem untrimmed_msgid_in_fallback:
  "[js ''Hello'' \<mapsto> Ctx [[] \<mapsto> Str (js ''Bonjour'')]] (trim (js ''  Hello  '')) =
     Some (Ctx [[] \<mapsto> Str (js ''Bonjour'')]) \<and>
   snd (getTranslation es_host binary_plural
          (plain_language (js ''fr'')
             [js ''fr'' \<mapsto> [js ''Hello'' \<mapsto> Ctx [[] \<mapsto> Str (js ''Bonjour'')]]])
          (js ''  Hello  '') (Some 1) (Some (js ''shelf'')) None None None False) =
     Inr (js ''  Hello  '') \<and>
   snd (getTranslation es_host binary_plural
          (plain_language (js ''fr'')
             [js ''fr'' \<mapsto> [js ''Hello'' \<mapsto> Ctx [[] \<mapsto> Str (js ''Bonjour'')]]])
          (js ''Hello'') (Some 1) (Some (js ''shelf'')) None None None False) =
     Inr (js ''Hello'') \<and>
   snd (getTranslation es_host binary_plural
          (plain_language (js ''fr'') [js ''fr'' \<mapsto> [[] \<mapsto> Msg (Str (js ''header''))]])
          (js ''  '') (Some 1) None None None None False) = Inr (js ''header'') \<and>
   snd (getTranslation es_host binary_plural
          (plain_language (js ''fr'') [js ''fr'' \<mapsto> [[] \<mapsto> Msg (Str (js ''header''))]])
          (trim (js ''  '')) (Some 1) None None None None False) = Inr []"
  by (simp add: getTranslation_def Let_def language_key_def is_silent_def
      find_translations_def lookup_language_def inherit_def trim_Hello trim_spaced_Hello
      trim_blank lookup_translated_def val_of_entry_def val_of_message_def unwrap_void_def
      select_form_def untranslated_def interp_def)

end
